theory Spec2Isabelle
  imports Main
begin

section \<open>Python primitives used by pyzfs\<close>

text \<open>
  Strings are ASCII byte strings. The helpers below model the built-ins the module calls:
  \<^verbatim>\<open>str.split(sep)\<close>, \<^verbatim>\<open>sep.join(xs)\<close>, \<^verbatim>\<open>str(int)\<close>, \<^verbatim>\<open>int(str)\<close> and
  \<^verbatim>\<open>shlex.quote\<close>.
\<close>

fun py_split :: "char \<Rightarrow> string \<Rightarrow> string list" where
  "py_split sep [] = [[]]"
| "py_split sep (c # cs) =
     (if c = sep then [] # py_split sep cs
      else (case py_split sep cs of
              [] \<Rightarrow> [[c]]
            | x # xs \<Rightarrow> (c # x) # xs))"

definition py_join :: "string \<Rightarrow> string list \<Rightarrow> string" where
  "py_join sep xs = (case xs of [] \<Rightarrow> [] | y # ys \<Rightarrow> y @ concat (map (\<lambda>z. sep @ z) ys))"

definition digit_char :: "nat \<Rightarrow> char" where
  "digit_char d = ''0123456789'' ! d"

fun str_nat :: "nat \<Rightarrow> string" where
  "str_nat n = (if n < 10 then [digit_char n] else str_nat (n div 10) @ [digit_char (n mod 10)])"

declare str_nat.simps [simp del]

text \<open>\<^verbatim>\<open>str(i)\<close> and \<^verbatim>\<open>'{:d}'.format(i)\<close> for a Python int.\<close>

definition str_int :: "int \<Rightarrow> string" where
  "str_int i = (if i < 0 then CHR ''-'' # str_nat (nat (- i)) else str_nat (nat i))"

text \<open>
  \<^verbatim>\<open>int(s)\<close> in base 10 on ASCII text: surrounding whitespace (tab, line feed, vertical
  tab, form feed, carriage return, blank) is stripped, one sign is allowed, then decimal
  digits in which single underscores may separate digit groups. \<open>None\<close> stands for the
  raised \<^verbatim>\<open>ValueError\<close>. \<open>max_digits\<close> is the interpreter's limit on the number of digits
  of a decimal string (\<^verbatim>\<open>sys.get_int_max_str_digits()\<close>, 4300 unless configured): a string
  of more than 640 digits that exceeds a non-zero limit is rejected; 0 means no limit, as in
  interpreters that have none.
\<close>

definition py_isspace :: "char \<Rightarrow> bool" where
  "py_isspace c = (of_char c \<in> {9, 10, 11, 12, 13, 32 :: nat})"

definition py_strip :: "string \<Rightarrow> string" where
  "py_strip s = rev (dropWhile py_isspace (rev (dropWhile py_isspace s)))"

definition is_digit :: "char \<Rightarrow> bool" where
  "is_digit c = (48 \<le> (of_char c :: nat) \<and> (of_char c :: nat) \<le> 57)"

definition digit_val :: "char \<Rightarrow> int" where
  "digit_val c = int (of_char c) - 48"

definition digits_val :: "string \<Rightarrow> int" where
  "digits_val s = foldl (\<lambda>acc c. 10 * acc + digit_val c) 0 s"

definition digits_ok :: "string \<Rightarrow> bool" where
  "digits_ok s = list_all (\<lambda>g. g \<noteq> [] \<and> list_all is_digit g) (py_split (CHR ''_'') s)"

definition py_int :: "nat \<Rightarrow> string \<Rightarrow> int option" where
  "py_int max_digits s =
     (let t = py_strip s;
          neg = (t \<noteq> [] \<and> hd t = CHR ''-'');
          body = (if t \<noteq> [] \<and> (hd t = CHR ''-'' \<or> hd t = CHR ''+'') then tl t else t);
          ds = filter (\<lambda>c. c \<noteq> CHR ''_'') body
      in if digits_ok body
            \<and> \<not> (640 < length ds \<and> 0 < max_digits \<and> max_digits < length ds)
         then Some ((if neg then - 1 else 1) * digits_val ds)
         else None)"

text \<open>
  \<^verbatim>\<open>shlex.quote\<close>: the empty string becomes two apostrophes, a string of safe characters
  is returned as it is, anything else is wrapped in apostrophes with each apostrophe
  inside replaced by \<^verbatim>\<open>'"'"'\<close>.
\<close>

definition is_safe_char :: "char \<Rightarrow> bool" where
  "is_safe_char c =
     (let n = (of_char c :: nat)
      in (48 \<le> n \<and> n \<le> 57) \<or> (65 \<le> n \<and> n \<le> 90) \<or> (97 \<le> n \<and> n \<le> 122)
         \<or> c \<in> set ''_@%+=:,./-'')"

definition quote :: "string \<Rightarrow> string" where
  "quote s =
     (if s = [] then [CHR 0x27, CHR 0x27]
      else if list_all is_safe_char s then s
      else [CHR 0x27]
           @ concat (map (\<lambda>c. if c = CHR 0x27
                               then [CHR 0x27, CHR 0x22, CHR 0x27, CHR 0x22, CHR 0x27]
                               else [c]) s)
           @ [CHR 0x27])"

section \<open>Errors, endpoints and the external tool\<close>

datatype error =
    DatasetNotFoundError
  | DatasetBusyError
  | CalledProcessError
  | OperationNotAllowedError
  | NotImplementedError
  | TypeError
  | ValueError
  | KeyError
  | IndexError
  | AttributeError
  | OtherError

text \<open>
  The remote endpoint object handed in as \<^verbatim>\<open>ssh\<close>. Its class is not part of the module;
  the fields are the attributes the module reads. \<open>None\<close> in an optional field is
  Python's \<^verbatim>\<open>None\<close>.
\<close>

record ssh =
  user :: string
  host :: string
  cmd :: "string list"
  mbuffer :: "(int \<Rightarrow> string list) option"
  pv :: "(int \<Rightarrow> string list) option"
  compress :: "string list option"
  decompress :: "string list option"

text \<open>
  Facts of the running process: whether \<^verbatim>\<open>mbuffer\<close> and \<^verbatim>\<open>pv\<close> exist on the local
  machine (probed at import time), whether standard output is a terminal, and the
  interpreter's limit on the digits of a decimal string (0 for none).
\<close>

record env =
  has_mbuffer :: bool
  has_pv :: bool
  isatty :: bool
  int_max_str_digits :: nat

definition SHELL :: "string list" where
  "SHELL = [''sh'', ''-c'']"

definition MBUFFER :: "env \<Rightarrow> (int \<Rightarrow> string list) option" where
  "MBUFFER e =
     (if has_mbuffer e
      then Some (\<lambda>mem. [''mbuffer'', ''-q'', ''-s'', ''128K'', ''-m'', str_int mem @ ''M''])
      else None)"

definition PV :: "env \<Rightarrow> (int \<Rightarrow> string list) option" where
  "PV e =
     (if has_pv e
      then Some (\<lambda>size. [''pv'', ''-f'', ''-w'', ''100'', ''-s'', str_int size])
      else None)"

type_synonym rows = "string list list"

text \<open>
  \<^verbatim>\<open>process.check_output\<close> is imported, not defined, by the module: it is a parameter.
  A tool answers the \<open>n\<close>-th invocation of a run (counting from 0) with either a raised
  error or the tab-separated rows of the output. The state threaded through every
  operation is the log of invocations made so far.
\<close>

type_synonym call = "string list \<times> ssh option"
type_synonym tool = "nat \<Rightarrow> string list \<Rightarrow> ssh option \<Rightarrow> error + rows"
type_synonym 'a action = "call list \<Rightarrow> (error + 'a) \<times> call list"

text \<open>Truth value of an optional object: \<^verbatim>\<open>None\<close> is false, an object is true.\<close>

definition is_set :: "'a option \<Rightarrow> bool" where
  "is_set x = (case x of None \<Rightarrow> False | Some y \<Rightarrow> True)"

definition check_output :: "tool \<Rightarrow> string list \<Rightarrow> ssh option \<Rightarrow> rows action" where
  "check_output t argv s w = (t (length w) argv s, w @ [(argv, s)])"

definition return_act :: "'a \<Rightarrow> 'a action" where
  "return_act x w = (Inr x, w)"

definition raise_act :: "error \<Rightarrow> 'a action" where
  "raise_act e w = (Inl e, w)"

definition bind_act :: "'a action \<Rightarrow> ('a \<Rightarrow> 'b action) \<Rightarrow> 'b action" where
  "bind_act m f w = (case m w of (Inl e, w') \<Rightarrow> (Inl e, w') | (Inr x, w') \<Rightarrow> f x w')"

section \<open>Dataset entities\<close>

datatype kind = Filesystem | Volume | Snapshot

text \<open>
  An instance of \<^verbatim>\<open>ZFSFilesystem\<close>, \<^verbatim>\<open>ZFSVolume\<close> or \<^verbatim>\<open>ZFSSnapshot\<close>; the class is the
  \<open>kind\<close> tag. \<open>stream_cache\<close> is \<open>None\<close> while the attribute does not exist.
\<close>

record dataset =
  kind :: kind
  name :: string
  ssh :: "ssh option"
  stream_cache :: "(string \<Rightarrow> int option) option"

definition ZFSFilesystem :: "string \<Rightarrow> ssh option \<Rightarrow> dataset" where
  "ZFSFilesystem nm s = \<lparr>kind = Filesystem, name = nm, ssh = s, stream_cache = None\<rparr>"

definition ZFSVolume :: "string \<Rightarrow> ssh option \<Rightarrow> dataset" where
  "ZFSVolume nm s = \<lparr>kind = Volume, name = nm, ssh = s, stream_cache = None\<rparr>"

definition ZFSSnapshot :: "string \<Rightarrow> ssh option \<Rightarrow> dataset" where
  "ZFSSnapshot nm s = \<lparr>kind = Snapshot, name = nm, ssh = s, stream_cache = None\<rparr>"

text \<open>\<^verbatim>\<open>ZFSDataset.__str__\<close>.\<close>

definition dataset_str :: "dataset \<Rightarrow> string" where
  "dataset_str d =
     (case ssh d of
        Some s \<Rightarrow> user s @ ''@'' @ host s @ '':'' @ name d
      | None \<Rightarrow> name d)"

subsection \<open>Listing and property queries\<close>

text \<open>The depth flags shared by \<^verbatim>\<open>find\<close> and \<^verbatim>\<open>findprops\<close>.\<close>

definition depth_flags :: "int option \<Rightarrow> error + string list" where
  "depth_flags max_depth =
     (case max_depth of
        None \<Rightarrow> Inr [''-r'']
      | Some d \<Rightarrow> if d \<ge> 0 then Inr [''-d'', str_int d] else Inl TypeError)"

definition findprops_cmd ::
  "string \<Rightarrow> string list \<Rightarrow> string list \<Rightarrow> string list \<Rightarrow> string list \<Rightarrow> string list" where
  "findprops_cmd path depth props sources types =
     [''zfs'', ''get'', ''-H'', ''-p''] @ depth
     @ (if types \<noteq> [] then [''-t'', py_join '','' types] else [])
     @ (if sources \<noteq> [] then [''-s'', py_join '','' sources] else [])
     @ [py_join '','' props]
     @ (if path \<noteq> [] then [path] else [])"

text \<open>
  The dictionary comprehension: one inner dictionary per name in the first column, a
  later row replacing an earlier one with the same property. Every row is indexed up to
  field 3, so a shorter row raises \<^verbatim>\<open>IndexError\<close>.
\<close>

type_synonym propmap = "string \<Rightarrow> (string \<times> string) option"

definition props_dict :: "rows \<Rightarrow> string \<Rightarrow> propmap option" where
  "props_dict out nm =
     (if nm \<in> set (map (\<lambda>x. x ! 0) out)
      then Some (map_of (rev (map (\<lambda>i. (i ! 1, (i ! 2, i ! 3))) (filter (\<lambda>i. i ! 0 = nm) out))))
      else None)"

definition findprops ::
  "tool \<Rightarrow> string \<Rightarrow> ssh option \<Rightarrow> int option \<Rightarrow> string list \<Rightarrow> string list \<Rightarrow> string list
   \<Rightarrow> (string \<Rightarrow> propmap option) action" where
  "findprops t path s max_depth props sources types =
     (case depth_flags max_depth of
        Inl e \<Rightarrow> raise_act e
      | Inr depth \<Rightarrow>
          bind_act (check_output t (findprops_cmd path depth props sources types) s)
            (\<lambda>out. if list_all (\<lambda>i. length i \<ge> 4) out
                    then return_act (props_dict out)
                    else raise_act IndexError))"

text \<open>The factory \<^verbatim>\<open>open\<close>; \<open>ty = None\<close> asks the tool for the type.\<close>

definition open_typed :: "string \<Rightarrow> ssh option \<Rightarrow> string \<Rightarrow> error + dataset" where
  "open_typed nm s ty =
     (if ty = ''volume'' then Inr (ZFSVolume nm s)
      else if ty = ''filesystem'' then Inr (ZFSFilesystem nm s)
      else if ty = ''snapshot'' then Inr (ZFSSnapshot nm s)
      else Inl ValueError)"

definition open_ds :: "tool \<Rightarrow> string \<Rightarrow> ssh option \<Rightarrow> string option \<Rightarrow> dataset action" where
  "open_ds t nm s ty =
     (case ty of
        Some ty' \<Rightarrow> (\<lambda>w. (open_typed nm s ty', w))
      | None \<Rightarrow>
          bind_act (findprops t nm s (Some 0) [''type''] [] [])
            (\<lambda>d. case d nm of
                   None \<Rightarrow> raise_act KeyError
                 | Some pm \<Rightarrow>
                     (case pm ''type'' of
                        None \<Rightarrow> raise_act KeyError
                      | Some (v, src) \<Rightarrow> (\<lambda>w. (open_typed nm s v, w)))))"

definition find_cmd :: "string \<Rightarrow> string list \<Rightarrow> string list \<Rightarrow> string list" where
  "find_cmd path depth types =
     [''zfs'', ''list'', ''-H''] @ depth
     @ (if types \<noteq> [] then [''-t'', py_join '','' types] else [])
     @ [''-o'', ''name,type'']
     @ (if path \<noteq> [] then [path] else [])"

text \<open>
  The list comprehension of \<^verbatim>\<open>find\<close>: each row is unpacked into exactly two fields and
  opened with its type; the first row that does not unpack, or has an unknown type, raises
  \<^verbatim>\<open>ValueError\<close>.
\<close>

fun open_rows :: "ssh option \<Rightarrow> rows \<Rightarrow> error + dataset list" where
  "open_rows s [] = Inr []"
| "open_rows s (r # rs) =
     (case r of
        [nm, ty] \<Rightarrow>
          (case open_typed nm s ty of
             Inl e \<Rightarrow> Inl e
           | Inr d \<Rightarrow> (case open_rows s rs of Inl e \<Rightarrow> Inl e | Inr ds \<Rightarrow> Inr (d # ds)))
      | _ \<Rightarrow> Inl ValueError)"

definition find ::
  "tool \<Rightarrow> string \<Rightarrow> ssh option \<Rightarrow> int option \<Rightarrow> string list \<Rightarrow> dataset list action" where
  "find t path s max_depth types =
     (case depth_flags max_depth of
        Inl e \<Rightarrow> raise_act e
      | Inr depth \<Rightarrow>
          bind_act (check_output t (find_cmd path depth types) s)
            (\<lambda>out w. (open_rows s out, w)))"

subsection \<open>Properties of one dataset\<close>

definition getprop :: "tool \<Rightarrow> dataset \<Rightarrow> string \<Rightarrow> (string \<times> string) option action" where
  "getprop t self prop =
     bind_act (findprops t (name self) (ssh self) (Some 0) [prop] [] [])
       (\<lambda>d. case d (name self) of
              None \<Rightarrow> raise_act KeyError
            | Some pm \<Rightarrow> return_act (pm prop))"

text \<open>
  \<^verbatim>\<open>getpropval\<close>: indexing the result of \<^verbatim>\<open>getprop\<close> raises \<^verbatim>\<open>TypeError\<close> when the
  property was not in the answer. The result and the default are optional strings,
  \<open>None\<close> being Python's \<^verbatim>\<open>None\<close>.
\<close>

definition getpropval :: "tool \<Rightarrow> dataset \<Rightarrow> string \<Rightarrow> string option \<Rightarrow> string option action" where
  "getpropval t self prop dflt =
     bind_act (getprop t self prop)
       (\<lambda>r. case r of
              None \<Rightarrow> raise_act TypeError
            | Some (v, src) \<Rightarrow> return_act (if v = ''-'' then dflt else Some v))"

definition guid :: "tool \<Rightarrow> dataset \<Rightarrow> string option action" where
  "guid t self = getpropval t self ''guid'' None"

text \<open>
  \<^verbatim>\<open>ZFSDataset.__eq__\<close>. The left operand \<^verbatim>\<open>self.guid()\<close> is evaluated first; the right
  operand is \<open>None\<close> when the other value is Python's \<^verbatim>\<open>None\<close>, which has no \<^verbatim>\<open>guid\<close>
  attribute.
\<close>

definition dataset_eq :: "tool \<Rightarrow> dataset \<Rightarrow> dataset option \<Rightarrow> bool action" where
  "dataset_eq t self other =
     bind_act (guid t self)
       (\<lambda>g1. case other of
               None \<Rightarrow> raise_act AttributeError
             | Some v \<Rightarrow> bind_act (guid t v) (\<lambda>g2. return_act (g1 = g2)))"

subsection \<open>Capability-restricted listings\<close>

text \<open>
  \<^verbatim>\<open>ZFSVolume\<close> overrides \<^verbatim>\<open>filesystems\<close> and \<^verbatim>\<open>volumes\<close>, \<^verbatim>\<open>ZFSSnapshot\<close> overrides
  \<^verbatim>\<open>snapshots\<close> and \<^verbatim>\<open>snapshot\<close>; the method resolved for an instance is chosen by its
  class, here by the \<open>kind\<close> tag.
\<close>

definition filesystems :: "tool \<Rightarrow> dataset \<Rightarrow> int option \<Rightarrow> dataset list action" where
  "filesystems t self max_depth =
     (case kind self of
        Volume \<Rightarrow> raise_act OperationNotAllowedError
      | _ \<Rightarrow> bind_act (find t (name self) (ssh self) max_depth [''filesystem''])
               (\<lambda>ds. return_act (drop 1 ds)))"

definition volumes :: "tool \<Rightarrow> dataset \<Rightarrow> int option \<Rightarrow> dataset list action" where
  "volumes t self max_depth =
     (case kind self of
        Volume \<Rightarrow> raise_act OperationNotAllowedError
      | _ \<Rightarrow> find t (name self) (ssh self) max_depth [''volume''])"

definition snapshots :: "tool \<Rightarrow> dataset \<Rightarrow> int option \<Rightarrow> dataset list action" where
  "snapshots t self max_depth =
     (case kind self of
        Snapshot \<Rightarrow> raise_act OperationNotAllowedError
      | _ \<Rightarrow> find t (name self) (ssh self) max_depth [''snapshot''])"

definition snapshot_cmd :: "string \<Rightarrow> string \<Rightarrow> bool \<Rightarrow> (string \<times> string) list \<Rightarrow> string list" where
  "snapshot_cmd nm snapname recursive props =
     [''zfs'', ''snapshot'']
     @ (if recursive then [''-r''] else [])
     @ concat (map (\<lambda>(prop, v). [''-o'', prop @ ''='' @ v]) props)
     @ [nm @ ''@'' @ snapname]"

definition snapshot ::
  "tool \<Rightarrow> dataset \<Rightarrow> string \<Rightarrow> bool \<Rightarrow> (string \<times> string) list \<Rightarrow> dataset action" where
  "snapshot t self snapname recursive props =
     (case kind self of
        Snapshot \<Rightarrow> raise_act OperationNotAllowedError
      | _ \<Rightarrow> bind_act (check_output t (snapshot_cmd (name self) snapname recursive props) (ssh self))
               (\<lambda>out. return_act (ZFSSnapshot (name self @ ''@'' @ snapname) (ssh self))))"

subsection \<open>Origin and promote\<close>

text \<open>\<^verbatim>\<open>origin\<close> returns \<^verbatim>\<open>None\<close> when the property value is \<^verbatim>\<open>None\<close> or empty.\<close>

definition origin :: "tool \<Rightarrow> dataset \<Rightarrow> dataset option action" where
  "origin t self =
     bind_act (getpropval t self ''origin'' None)
       (\<lambda>v. case v of
              None \<Rightarrow> return_act None
            | Some p \<Rightarrow>
                if p \<noteq> [] then bind_act (open_ds t p (ssh self) None) (\<lambda>d. return_act (Some d))
                else return_act None)"

text \<open>
  \<^verbatim>\<open>promote\<close> tests \<^verbatim>\<open>self.origin() == None\<close>. When the origin is \<^verbatim>\<open>None\<close> the comparison
  is Python's own and is true; when it is a dataset, the comparison is that dataset's
  \<^verbatim>\<open>__eq__\<close> applied to \<^verbatim>\<open>None\<close>.
\<close>

definition promote_cmd :: "string \<Rightarrow> string list" where
  "promote_cmd nm = [''zfs'', ''promote''] @ [nm]"

definition promote :: "tool \<Rightarrow> dataset \<Rightarrow> unit action" where
  "promote t self =
     bind_act (origin t self)
       (\<lambda>orig. bind_act (case orig of
                           None \<Rightarrow> return_act True
                         | Some d \<Rightarrow> dataset_eq t d None)
          (\<lambda>is_none. if is_none then return_act ()
                      else bind_act (check_output t (promote_cmd (name self)) (ssh self))
                             (\<lambda>out. return_act ())))"

subsection \<open>Clones of a snapshot\<close>

text \<open>
  \<^verbatim>\<open>ZFSSnapshot.clones\<close> calls \<^verbatim>\<open>split\<close> on the result of \<^verbatim>\<open>getpropval\<close>, which is
  \<^verbatim>\<open>None\<close> for the sentinel, and then compares the list with the empty string. A list and
  a string are different Python values, which \<open>pyval\<close> keeps apart.
\<close>

datatype pyval = PyStr string | PyList "string list"

fun open_all :: "tool \<Rightarrow> ssh option \<Rightarrow> string list \<Rightarrow> dataset list action" where
  "open_all t s [] = return_act []"
| "open_all t s (c # cs) =
     bind_act (open_ds t c s None)
       (\<lambda>d. bind_act (open_all t s cs) (\<lambda>ds. return_act (d # ds)))"

definition snapshot_clones :: "tool \<Rightarrow> dataset \<Rightarrow> dataset list action" where
  "snapshot_clones t self =
     bind_act (getpropval t self ''clones'' None)
       (\<lambda>v. case v of
              None \<Rightarrow> raise_act AttributeError
            | Some p \<Rightarrow>
                (let clones = py_split (CHR '','') p
                 in if PyList clones = PyStr ''''
                    then return_act []
                    else open_all t (ssh self) clones))"

section \<open>Stream size estimation\<close>

text \<open>\<^verbatim>\<open>str(base)\<close>, the cache key.\<close>

definition base_key :: "dataset option \<Rightarrow> string" where
  "base_key base = (case base of None \<Rightarrow> ''None'' | Some b \<Rightarrow> dataset_str b)"

definition stream_size_cmd :: "string \<Rightarrow> dataset option \<Rightarrow> string list" where
  "stream_size_cmd nm base =
     [''zfs'', ''send'', ''-nvP'']
     @ (case base of None \<Rightarrow> [] | Some b \<Rightarrow> [''-I'', name b])
     @ [nm]"

text \<open>
  The second \<^verbatim>\<open>try\<close> block: \<^verbatim>\<open>out[-1][-1]\<close>, then the text after the last blank, then
  \<^verbatim>\<open>int\<close>. \<open>None\<close> is a caught \<^verbatim>\<open>IndexError\<close> or \<^verbatim>\<open>ValueError\<close>.
\<close>

definition parse_size :: "env \<Rightarrow> rows \<Rightarrow> int option" where
  "parse_size e out =
     (if out = [] then None
      else if last out = [] then None
      else py_int (int_max_str_digits e) (last (py_split (CHR '' '') (last (last out)))))"

definition caught :: "error \<Rightarrow> bool" where
  "caught e = (e = DatasetNotFoundError \<or> e = DatasetBusyError \<or> e = CalledProcessError)"

text \<open>
  The part of \<^verbatim>\<open>stream_size\<close> after the cache lookup, with the dictionary \<open>cache\<close> that the
  attribute holds at that point. The snapshot is returned with its cache updated.
\<close>

definition stream_size_run ::
  "tool \<Rightarrow> env \<Rightarrow> dataset \<Rightarrow> (string \<Rightarrow> int option) \<Rightarrow> dataset option \<Rightarrow> call list
   \<Rightarrow> (error + int) \<times> dataset \<times> call list" where
  "stream_size_run t e self cache base w =
     (case check_output t (stream_size_cmd (name self) base) (ssh self) w of
        (Inl err, w') \<Rightarrow>
          (if caught err then (Inr 0, self\<lparr>stream_cache := Some cache\<rparr>, w')
           else (Inl err, self\<lparr>stream_cache := Some cache\<rparr>, w'))
      | (Inr out, w') \<Rightarrow>
          (case parse_size e out of
             None \<Rightarrow> (Inr 0, self\<lparr>stream_cache := Some cache\<rparr>, w')
           | Some sz \<Rightarrow>
               (Inr sz, self\<lparr>stream_cache := Some (cache(base_key base \<mapsto> sz))\<rparr>, w')))"

definition stream_size ::
  "tool \<Rightarrow> env \<Rightarrow> dataset \<Rightarrow> dataset option \<Rightarrow> call list
   \<Rightarrow> (error + int) \<times> dataset \<times> call list" where
  "stream_size t e self base w =
     (case stream_cache self of
        None \<Rightarrow> stream_size_run t e self Map.empty base w
      | Some c \<Rightarrow>
          (case c (base_key base) of
             Some v \<Rightarrow> (Inr v, self, w)
           | None \<Rightarrow> stream_size_run t e self (c(base_key base \<mapsto> 0)) base w))"

section \<open>Transfer pipelines\<close>

definition MiB :: int where
  "MiB = 1024 ^ 2"

text \<open>\<^verbatim>\<open>min(max(stream_size // 1024**2, 1), 256 if remote else 512)\<close>.\<close>

definition mbuff_size :: "int \<Rightarrow> bool \<Rightarrow> int" where
  "mbuff_size sz remote = min (max (sz div MiB) 1) (if remote then 256 else 512)"

subsection \<open>The source side: \<^verbatim>\<open>ZFSSnapshot.send\<close>\<close>

definition send_mbuffer :: "env \<Rightarrow> ssh option \<Rightarrow> (int \<Rightarrow> string list) option" where
  "send_mbuffer e s = (case s of Some r \<Rightarrow> mbuffer r | None \<Rightarrow> MBUFFER e)"

definition send_pv :: "env \<Rightarrow> ssh option \<Rightarrow> (int \<Rightarrow> string list) option" where
  "send_pv e s = (case s of Some r \<Rightarrow> pv r | None \<Rightarrow> PV e)"

definition send_shell :: "ssh option \<Rightarrow> string list" where
  "send_shell s = (case s of Some r \<Rightarrow> cmd r | None \<Rightarrow> SHELL)"

definition send_compress :: "ssh option \<Rightarrow> ssh option \<Rightarrow> string list option" where
  "send_compress src dst =
     (case src of
        Some a \<Rightarrow>
          (case dst of
             Some b \<Rightarrow> if compress a = compress b then compress a else None
           | None \<Rightarrow> compress a)
      | None \<Rightarrow>
          (case dst of
             Some b \<Rightarrow> compress b
           | None \<Rightarrow> None))"

definition send_generation ::
  "dataset \<Rightarrow> dataset option \<Rightarrow> bool \<Rightarrow> bool \<Rightarrow> bool \<Rightarrow> bool \<Rightarrow> bool \<Rightarrow> string list" where
  "send_generation self base intermediates replicate_f properties deduplicate raw =
     [''zfs'', ''send'']
     @ (if replicate_f then [''-R''] else [])
     @ (if properties then [''-p''] else [])
     @ (if deduplicate then [''-D''] else [])
     @ (if raw then [''-w''] else [])
     @ (case base of
          None \<Rightarrow> []
        | Some b \<Rightarrow> [if intermediates then ''-I'' else ''-i'', quote (name b)])
     @ [quote (name self)]"

definition pv_cmd :: "env \<Rightarrow> (int \<Rightarrow> string list) \<Rightarrow> int \<Rightarrow> string list" where
  "pv_cmd e g sz = g sz @ (if \<not> isatty e then [''-D'', ''60'', ''-i'', ''60''] else [])"

text \<open>
  The token list \<^verbatim>\<open>cmd\<close> of \<^verbatim>\<open>send\<close> just before it is joined, built in the order of the
  source: the send invocation, then \<^verbatim>\<open>mbuffer\<close>, then \<^verbatim>\<open>pv\<close>, then the compressor.
  \<open>sz\<close> is the value \<^verbatim>\<open>stream_size\<close> returned.
\<close>

definition send_pipeline ::
  "env \<Rightarrow> dataset \<Rightarrow> ssh option \<Rightarrow> dataset option \<Rightarrow> bool \<Rightarrow> bool \<Rightarrow> bool \<Rightarrow> bool \<Rightarrow> bool
   \<Rightarrow> int \<Rightarrow> string list" where
  "send_pipeline e self ssh_dest base intermediates replicate_f properties deduplicate raw sz =
     (let mbuff = mbuff_size sz (is_set (ssh self) \<or> is_set ssh_dest);
          cmd0 = send_generation self base intermediates replicate_f properties deduplicate raw;
          cmd1 = (case send_mbuffer e (ssh self) of
                    Some f \<Rightarrow> if sz \<ge> MiB then cmd0 @ [''|''] @ f mbuff else cmd0
                  | None \<Rightarrow> cmd0);
          cmd2 = (case send_pv e (ssh self) of
                    Some g \<Rightarrow> if sz \<ge> MiB then cmd1 @ [''|''] @ pv_cmd e g sz else cmd1
                  | None \<Rightarrow> cmd1);
          cmd3 = (case send_compress (ssh self) ssh_dest of
                    Some c \<Rightarrow> if c \<noteq> [] \<and> \<not> raw then cmd2 @ [''|''] @ c else cmd2
                  | None \<Rightarrow> cmd2)
      in cmd3)"

text \<open>The argument vector handed to \<^verbatim>\<open>Popen\<close>.\<close>

definition send_argv ::
  "env \<Rightarrow> dataset \<Rightarrow> ssh option \<Rightarrow> dataset option \<Rightarrow> bool \<Rightarrow> bool \<Rightarrow> bool \<Rightarrow> bool \<Rightarrow> bool
   \<Rightarrow> int \<Rightarrow> string list" where
  "send_argv e self ssh_dest base intermediates replicate_f properties deduplicate raw sz =
     send_shell (ssh self)
     @ [py_join '' '' (send_pipeline e self ssh_dest base intermediates replicate_f properties
                         deduplicate raw sz)]"

text \<open>\<^verbatim>\<open>send\<close>: estimate the size, then build the command.\<close>

definition send ::
  "tool \<Rightarrow> env \<Rightarrow> dataset \<Rightarrow> ssh option \<Rightarrow> dataset option \<Rightarrow> bool \<Rightarrow> bool \<Rightarrow> bool \<Rightarrow> bool \<Rightarrow> bool
   \<Rightarrow> call list \<Rightarrow> (error + string list) \<times> dataset \<times> call list" where
  "send t e self ssh_dest base intermediates replicate_f properties deduplicate raw w =
     (case stream_size t e self base w of
        (Inl err, self', w') \<Rightarrow> (Inl err, self', w')
      | (Inr sz, self', w') \<Rightarrow>
          (Inr (send_argv e self' ssh_dest base intermediates replicate_f properties deduplicate
                  raw sz), self', w'))"

subsection \<open>The destination side: \<^verbatim>\<open>receive\<close>\<close>

definition recv_mbuffer :: "env \<Rightarrow> ssh option \<Rightarrow> (int \<Rightarrow> string list) option" where
  "recv_mbuffer e s = (case s of Some r \<Rightarrow> mbuffer r | None \<Rightarrow> MBUFFER e)"

definition recv_decompress :: "ssh option \<Rightarrow> ssh option \<Rightarrow> string list option" where
  "recv_decompress ssh_source s =
     (case ssh_source of
        Some a \<Rightarrow>
          (case s of
             Some b \<Rightarrow> if decompress a = decompress b then decompress a else None
           | None \<Rightarrow> decompress a)
      | None \<Rightarrow>
          (case s of
             Some b \<Rightarrow> decompress b
           | None \<Rightarrow> None))"

definition receive_cmd :: "string \<Rightarrow> bool \<Rightarrow> bool \<Rightarrow> bool \<Rightarrow> bool \<Rightarrow> string list" where
  "receive_cmd nm append_name append_path force nomount =
     [''zfs'', ''receive'']
     @ (if append_name then [''-e''] else if append_path then [''-d''] else [])
     @ (if force then [''-F''] else [])
     @ (if nomount then [''-u''] else [])
     @ [quote nm]"

text \<open>
  The token list of \<^verbatim>\<open>receive\<close> before joining: the decompressor is put in front of the
  receive invocation, and \<^verbatim>\<open>mbuffer\<close> in front of both.
\<close>

definition receive_pipeline ::
  "env \<Rightarrow> string \<Rightarrow> ssh option \<Rightarrow> ssh option \<Rightarrow> bool \<Rightarrow> bool \<Rightarrow> bool \<Rightarrow> bool \<Rightarrow> int \<Rightarrow> bool
   \<Rightarrow> string list" where
  "receive_pipeline e nm s ssh_source append_name append_path force nomount sz raw =
     (let mbuff = mbuff_size sz (is_set ssh_source \<or> is_set s);
          cmd0 = receive_cmd nm append_name append_path force nomount;
          cmd1 = (case recv_decompress ssh_source s of
                    Some d \<Rightarrow> if d \<noteq> [] \<and> \<not> raw then d @ [''|''] @ cmd0 else cmd0
                  | None \<Rightarrow> cmd0);
          cmd2 = (case recv_mbuffer e s of
                    Some f \<Rightarrow>
                      if (is_set ssh_source \<or> is_set s) \<and> sz \<ge> MiB
                      then f mbuff @ [''|''] @ cmd1 else cmd1
                  | None \<Rightarrow> cmd1)
      in cmd2)"

definition receive ::
  "env \<Rightarrow> string \<Rightarrow> ssh option \<Rightarrow> ssh option \<Rightarrow> bool \<Rightarrow> bool \<Rightarrow> bool \<Rightarrow> bool \<Rightarrow> int \<Rightarrow> bool
   \<Rightarrow> string list" where
  "receive e nm s ssh_source append_name append_path force nomount sz raw =
     send_shell s
     @ [py_join '' '' (receive_pipeline e nm s ssh_source append_name append_path force nomount
                         sz raw)]"

subsection \<open>The pipelines as lists of stages\<close>

text \<open>
  The same two pipelines, each stage kept apart and tagged with its role. The lemmas
  \<open>send_pipeline_stages\<close> and \<open>receive_pipeline_stages\<close> below show that joining the
  stages with \<^verbatim>\<open>|\<close> gives exactly the token lists above.
\<close>

datatype stage = Generation | Buffering | Metering | Compression | Decompression | Receive

definition pipe_join :: "string list list \<Rightarrow> string list" where
  "pipe_join xs = (case xs of [] \<Rightarrow> [] | y # ys \<Rightarrow> y @ concat (map (\<lambda>z. [''|''] @ z) ys))"

definition send_stages ::
  "env \<Rightarrow> dataset \<Rightarrow> ssh option \<Rightarrow> dataset option \<Rightarrow> bool \<Rightarrow> bool \<Rightarrow> bool \<Rightarrow> bool \<Rightarrow> bool
   \<Rightarrow> int \<Rightarrow> (stage \<times> string list) list" where
  "send_stages e self ssh_dest base intermediates replicate_f properties deduplicate raw sz =
     [(Generation, send_generation self base intermediates replicate_f properties deduplicate raw)]
     @ (case send_mbuffer e (ssh self) of
          Some f \<Rightarrow>
            if sz \<ge> MiB
            then [(Buffering, f (mbuff_size sz (is_set (ssh self) \<or> is_set ssh_dest)))]
            else []
        | None \<Rightarrow> [])
     @ (case send_pv e (ssh self) of
          Some g \<Rightarrow> if sz \<ge> MiB then [(Metering, pv_cmd e g sz)] else []
        | None \<Rightarrow> [])
     @ (case send_compress (ssh self) ssh_dest of
          Some c \<Rightarrow> if c \<noteq> [] \<and> \<not> raw then [(Compression, c)] else []
        | None \<Rightarrow> [])"

definition receive_stages ::
  "env \<Rightarrow> string \<Rightarrow> ssh option \<Rightarrow> ssh option \<Rightarrow> bool \<Rightarrow> bool \<Rightarrow> bool \<Rightarrow> bool \<Rightarrow> int \<Rightarrow> bool
   \<Rightarrow> (stage \<times> string list) list" where
  "receive_stages e nm s ssh_source append_name append_path force nomount sz raw =
     (case recv_mbuffer e s of
        Some f \<Rightarrow>
          if (is_set ssh_source \<or> is_set s) \<and> sz \<ge> MiB
          then [(Buffering, f (mbuff_size sz (is_set ssh_source \<or> is_set s)))]
          else []
      | None \<Rightarrow> [])
     @ (case recv_decompress ssh_source s of
          Some d \<Rightarrow> if d \<noteq> [] \<and> \<not> raw then [(Decompression, d)] else []
        | None \<Rightarrow> [])
     @ [(Receive, receive_cmd nm append_name append_path force nomount)]"

definition stage_kinds :: "(stage \<times> string list) list \<Rightarrow> stage list" where
  "stage_kinds st = map fst st"

section \<open>The specification's wording\<close>

text \<open>
  The compression vector of an endpoint as the specification speaks of it: a local
  endpoint has none. \<open>spec_compression_cond\<close> is the specification's condition for a
  compression stage: the transfer is remote, raw is false, and both endpoints' vectors are
  non-empty and equal.
\<close>

definition endpoint_compress :: "ssh option \<Rightarrow> string list option" where
  "endpoint_compress ep = (case ep of None \<Rightarrow> None | Some r \<Rightarrow> compress r)"

definition spec_compression_cond :: "ssh option \<Rightarrow> ssh option \<Rightarrow> bool \<Rightarrow> bool" where
  "spec_compression_cond src dst raw =
     ((is_set src \<or> is_set dst) \<and> \<not> raw
      \<and> (case endpoint_compress src of
            None \<Rightarrow> False
          | Some c \<Rightarrow> c \<noteq> [] \<and> endpoint_compress dst = Some c))"

text \<open>The specification's \<open>clamp(x, lo, hi)\<close>.\<close>

definition spec_clamp :: "int \<Rightarrow> int \<Rightarrow> int \<Rightarrow> int" where
  "spec_clamp x lo hi = (if x < lo then lo else if hi < x then hi else x)"

section \<open>Concrete endpoints, datasets and tools\<close>

definition env_all :: env where
  "env_all = \<lparr>has_mbuffer = True, has_pv = True, isatty = True, int_max_str_digits = 4300\<rparr>"

definition remote_a :: ssh where
  "remote_a =
     \<lparr>user = ''root'', host = ''backup'', cmd = [''ssh'', ''root@backup''],
      mbuffer = Some (\<lambda>mem. [''mbuffer'', ''-q'', ''-s'', ''128K'', ''-m'', str_int mem @ ''M'']),
      pv = Some (\<lambda>sz. [''pv'', ''-f'', ''-w'', ''100'', ''-s'', str_int sz]),
      compress = Some [''lzop'', ''-3''], decompress = Some [''lzop'', ''-dfc'']\<rparr>"

definition remote_b :: ssh where
  "remote_b =
     \<lparr>user = ''root'', host = ''vault'', cmd = [''ssh'', ''root@vault''],
      mbuffer = None, pv = None,
      compress = Some [''gzip'', ''-3''], decompress = Some [''gzip'', ''-dfc'']\<rparr>"

definition snap_local :: dataset where
  "snap_local = ZFSSnapshot ''tank/fs@s1'' None"

definition snap_remote :: dataset where
  "snap_remote = ZFSSnapshot ''tank/fs@s1'' (Some remote_a)"

text \<open>
  A tool that answers a single-property query \<^verbatim>\<open>zfs get -H -p -d 0 prop name\<close> from a
  table of (name, property, value) and fails on anything else.
\<close>

definition table_tool :: "(string \<times> string \<times> string) list \<Rightarrow> tool" where
  "table_tool tab n argv s =
     (if length argv = 8 \<and> take 6 argv = [''zfs'', ''get'', ''-H'', ''-p'', ''-d'', ''0'']
      then (case map_of (map (\<lambda>(a, b, c). ((a, b), c)) tab) (argv ! 7, argv ! 6) of
              Some v \<Rightarrow> Inr [[argv ! 7, argv ! 6, v, ''-'']]
            | None \<Rightarrow> Inl DatasetNotFoundError)
      else Inl CalledProcessError)"

definition clone_tab :: "(string \<times> string \<times> string) list" where
  "clone_tab =
     [(''tank/clone'', ''origin'', ''tank/fs@s1''),
      (''tank/fs@s1'', ''type'', ''snapshot''),
      (''tank/fs@s1'', ''guid'', ''42''),
      (''tank/fs'', ''origin'', ''-''),
      (''tank/fs'', ''guid'', ''7''),
      (''tank/moved'', ''guid'', ''7''),
      (''tank/fs@s1'', ''clones'', ''-'')]"

text \<open>A dry run that is busy at the first invocation and answers afterwards.\<close>

definition flaky_tool :: tool where
  "flaky_tool n argv s =
     (if n = 0 then Inl DatasetBusyError
      else Inr [[''full'', ''tank/fs@s1'', ''1000''], [''size'', ''1000'']])"

definition steady_tool :: tool where
  "steady_tool n argv s = Inr [[''full'', ''tank/fs@s1'', ''1000''], [''size'', ''1000'']]"

text \<open>A dry run whose last field carries a minus sign.\<close>

definition minus_tool :: tool where
  "minus_tool n argv s = Inr [[''size'', ''-5'']]"

text \<open>
  A tool that reports an empty \<^verbatim>\<open>clones\<close> value for the snapshot and answers the type
  query without a path with one filesystem row of empty name.
\<close>

definition empty_clones_tool :: tool where
  "empty_clones_tool n argv s =
     (if length argv = 8 then Inr [[''tank/fs@s1'', ''clones'', '''', ''-'']]
      else Inr [['''', ''type'', ''filesystem'', ''-'']])"

section \<open>Evaluation on concrete inputs\<close>

lemma str_nat_numeral [simp]:
  "str_nat (numeral k) =
     (if (numeral k :: nat) < 10 then [digit_char (numeral k)]
      else str_nat (numeral k div 10) @ [digit_char (numeral k mod 10)])"
  by (rule str_nat.simps)

lemma str_nat_0 [simp]: "str_nat 0 = ''0''"
  by (simp add: str_nat.simps digit_char_def)

lemma str_nat_1 [simp]: "str_nat (Suc 0) = ''1''"
  by (simp add: str_nat.simps digit_char_def)

lemmas act_defs = bind_act_def return_act_def raise_act_def check_output_def

lemmas query_defs = getpropval_def getprop_def findprops_def findprops_cmd_def depth_flags_def
  props_dict_def py_join_def str_int_def guid_def open_ds_def open_typed_def

lemmas entity_defs = ZFSSnapshot_def ZFSFilesystem_def ZFSVolume_def

lemmas example_defs = table_tool_def clone_tab_def snap_local_def snap_remote_def

lemma getprop_table_guid:
  "getprop (table_tool clone_tab) (ZFSFilesystem ''tank/fs'' None) ''guid'' [] =
     (Inr (Some (''7'', ''-'')),
      [([''zfs'', ''get'', ''-H'', ''-p'', ''-d'', ''0'', ''guid'', ''tank/fs''], None)])"
  by (simp add: act_defs query_defs entity_defs example_defs)

lemma getprop_table_guid_moved:
  "getprop (table_tool clone_tab) (ZFSFilesystem ''tank/moved'' None) ''guid''
     [([''zfs'', ''get'', ''-H'', ''-p'', ''-d'', ''0'', ''guid'', ''tank/fs''], None)] =
     (Inr (Some (''7'', ''-'')),
      [([''zfs'', ''get'', ''-H'', ''-p'', ''-d'', ''0'', ''guid'', ''tank/fs''], None),
       ([''zfs'', ''get'', ''-H'', ''-p'', ''-d'', ''0'', ''guid'', ''tank/moved''], None)])"
  by (simp add: act_defs query_defs entity_defs example_defs)

lemma getprop_table_origin:
  "getprop (table_tool clone_tab) (ZFSFilesystem ''tank/fs'' None) ''origin'' [] =
     (Inr (Some (''-'', ''-'')),
      [([''zfs'', ''get'', ''-H'', ''-p'', ''-d'', ''0'', ''origin'', ''tank/fs''], None)])"
  by (simp add: act_defs query_defs entity_defs example_defs)

lemma getprop_table_clones:
  "getprop (table_tool clone_tab) snap_local ''clones'' [] =
     (Inr (Some (''-'', ''-'')),
      [([''zfs'', ''get'', ''-H'', ''-p'', ''-d'', ''0'', ''clones'', ''tank/fs@s1''], None)])"
  by (simp add: act_defs query_defs entity_defs example_defs)

lemma getprop_empty_clones:
  "getprop empty_clones_tool snap_local ''clones'' [] =
     (Inr (Some ('''', ''-'')),
      [([''zfs'', ''get'', ''-H'', ''-p'', ''-d'', ''0'', ''clones'', ''tank/fs@s1''], None)])"
  by (simp add: act_defs query_defs entity_defs example_defs empty_clones_tool_def)

lemma origin_table_none:
  "origin (table_tool clone_tab) (ZFSFilesystem ''tank/fs'' None) [] =
     (Inr None, [([''zfs'', ''get'', ''-H'', ''-p'', ''-d'', ''0'', ''origin'', ''tank/fs''], None)])"
  by (simp add: origin_def act_defs query_defs entity_defs example_defs)

section \<open>Property queries and identity\<close>

text \<open>
  Claim C7. \<^verbatim>\<open>getpropval\<close> returns the provided default exactly when the raw value that
  \<^verbatim>\<open>getprop\<close> fetched is the sentinel \<^verbatim>\<open>-\<close>, and the raw value itself otherwise; the log of
  invocations is the one the fetch left.
\<close>

theorem getpropval_sentinel:
  assumes "getprop t self prop w = (Inr (Some (raw, src)), w')"
  shows "getpropval t self prop dflt w = (Inr (if raw = ''-'' then dflt else Some raw), w')"
  using assms by (simp add: getpropval_def bind_act_def return_act_def)

theorem getpropval_sentinel_witness:
  "getpropval (table_tool clone_tab) (ZFSFilesystem ''tank/fs'' None) ''origin''
     (Some ''none'') [] =
     (Inr (Some ''none''),
      [([''zfs'', ''get'', ''-H'', ''-p'', ''-d'', ''0'', ''origin'', ''tank/fs''], None)])
   \<and> getpropval (table_tool clone_tab) (ZFSFilesystem ''tank/fs'' None) ''guid''
     (Some ''none'') [] =
     (Inr (Some ''7''),
      [([''zfs'', ''get'', ''-H'', ''-p'', ''-d'', ''0'', ''guid'', ''tank/fs''], None)])"
  using getpropval_sentinel [OF getprop_table_origin, of "Some ''none''"]
        getpropval_sentinel [OF getprop_table_guid, of "Some ''none''"]
  by simp

text \<open>
  Claim C9. For two dataset handles whose GUID fetches succeed, \<^verbatim>\<open>__eq__\<close> returns true
  if and only if the two fetched GUID values are equal, whatever the two path strings are.
\<close>

theorem eq_iff_guid:
  assumes "getprop t a ''guid'' w = (Inr (Some (ga, sa)), w1)"
    and "getprop t b ''guid'' w1 = (Inr (Some (gb, sb)), w2)"
  shows "dataset_eq t a (Some b) w = (Inr (ga = gb), w2)"
  using assms
  by (auto simp add: dataset_eq_def guid_def getpropval_def bind_act_def return_act_def)

theorem eq_iff_guid_witness:
  "dataset_eq (table_tool clone_tab) (ZFSFilesystem ''tank/fs'' None)
     (Some (ZFSFilesystem ''tank/moved'' None)) [] =
   (Inr True,
    [([''zfs'', ''get'', ''-H'', ''-p'', ''-d'', ''0'', ''guid'', ''tank/fs''], None),
     ([''zfs'', ''get'', ''-H'', ''-p'', ''-d'', ''0'', ''guid'', ''tank/moved''], None)])"
  using eq_iff_guid [OF getprop_table_guid getprop_table_guid_moved]
  by simp

section \<open>Capability checks\<close>

text \<open>
  Claim C8. On a snapshot, \<^verbatim>\<open>snapshots\<close> and \<^verbatim>\<open>snapshot\<close> raise
  \<^verbatim>\<open>OperationNotAllowedError\<close>; on a volume, \<^verbatim>\<open>filesystems\<close> and \<^verbatim>\<open>volumes\<close> do. The log
  of invocations is unchanged: the entity raises before any external command.
\<close>

theorem kind_restricted_operations:
  "(kind self = Snapshot \<longrightarrow>
      snapshots t self max_depth w = (Inl OperationNotAllowedError, w)
      \<and> snapshot t self snapname recursive props w = (Inl OperationNotAllowedError, w))
   \<and> (kind self = Volume \<longrightarrow>
      filesystems t self max_depth w = (Inl OperationNotAllowedError, w)
      \<and> volumes t self max_depth w = (Inl OperationNotAllowedError, w))"
  by (simp add: snapshots_def snapshot_def filesystems_def volumes_def raise_act_def)

theorem kind_restricted_operations_witness:
  "snapshots steady_tool snap_local (Some 1) [] = (Inl OperationNotAllowedError, [])
   \<and> snapshot steady_tool snap_local ''s2'' False [] [] = (Inl OperationNotAllowedError, [])
   \<and> filesystems steady_tool (ZFSVolume ''tank/vol'' None) (Some 1) [] =
       (Inl OperationNotAllowedError, [])
   \<and> volumes steady_tool (ZFSVolume ''tank/vol'' None) (Some 1) [] =
       (Inl OperationNotAllowedError, [])"
  using kind_restricted_operations
          [of snap_local steady_tool "Some 1" "[]" "''s2''" False "[]"]
        kind_restricted_operations
          [of "ZFSVolume ''tank/vol'' None" steady_tool "Some 1" "[]" "''s2''" False "[]"]
  by (simp add: snap_local_def entity_defs)

section \<open>Promote\<close>

lemma origin_None_log:
  assumes "origin t self w = (Inr None, w')"
  shows "w' = w @ [([''zfs'', ''get'', ''-H'', ''-p'', ''-d'', ''0'', ''origin'']
                     @ (if name self \<noteq> [] then [name self] else []), ssh self)]"
  using assms
  by (auto simp add: origin_def act_defs query_defs
      split: if_splits option.splits sum.splits prod.splits)

text \<open>
  When \<^verbatim>\<open>origin\<close> returns \<^verbatim>\<open>None\<close>, \<^verbatim>\<open>promote\<close> returns without an error and issues no
  promote command; the one external command of the call is the query of the \<^verbatim>\<open>origin\<close>
  property that \<^verbatim>\<open>origin\<close> makes.
\<close>

lemma promote_without_origin:
  assumes "origin t self w = (Inr None, w')"
  shows "promote t self w = (Inr (), w')
         \<and> w' = w @ [([''zfs'', ''get'', ''-H'', ''-p'', ''-d'', ''0'', ''origin'']
                       @ (if name self \<noteq> [] then [name self] else []), ssh self)]"
  using assms origin_None_log [OF assms]
  by (simp add: promote_def bind_act_def return_act_def)

lemma promote_without_origin_example:
  "promote (table_tool clone_tab) (ZFSFilesystem ''tank/fs'' None) [] =
     (Inr (), [([''zfs'', ''get'', ''-H'', ''-p'', ''-d'', ''0'', ''origin'', ''tank/fs''], None)])"
  using promote_without_origin [OF origin_table_none]
  by simp

text \<open>
  Whenever \<^verbatim>\<open>origin\<close> returns a dataset, \<^verbatim>\<open>promote\<close> raises: the test against \<^verbatim>\<open>None\<close>
  runs the origin's \<^verbatim>\<open>__eq__\<close>, which fetches the origin's GUID and then fails on
  \<^verbatim>\<open>None.guid\<close>. The log ends with that GUID query; no promote command is issued.
\<close>

lemma promote_with_origin_raises:
  assumes "origin t self w = (Inr (Some d), w1)"
  shows "\<exists>err. promote t self w = (Inl err, snd (guid t d w1))"
  using assms
  by (auto simp add: promote_def dataset_eq_def bind_act_def raise_act_def return_act_def
      split: prod.splits sum.splits)

text \<open>
  Claim C1 at the clone \<^verbatim>\<open>tank/clone\<close> of \<^verbatim>\<open>tank/fs@s1\<close>, a dataset that has an origin:
  \<^verbatim>\<open>promote\<close> raises \<^verbatim>\<open>AttributeError\<close> after three property queries (the origin, the
  origin's type, the origin's GUID) and never issues the promote command.
\<close>

theorem promote_clone_raises:
  "promote (table_tool clone_tab) (ZFSFilesystem ''tank/clone'' None) [] =
     (Inl AttributeError,
      [([''zfs'', ''get'', ''-H'', ''-p'', ''-d'', ''0'', ''origin'', ''tank/clone''], None),
       ([''zfs'', ''get'', ''-H'', ''-p'', ''-d'', ''0'', ''type'', ''tank/fs@s1''], None),
       ([''zfs'', ''get'', ''-H'', ''-p'', ''-d'', ''0'', ''guid'', ''tank/fs@s1''], None)])"
  by (simp add: promote_def origin_def dataset_eq_def act_defs query_defs entity_defs
      example_defs)

section \<open>Clones of a snapshot\<close>

lemma py_split_not_Nil: "py_split sep s \<noteq> []"
  by (induction s) (auto split: list.splits)

lemma open_all_Cons_not_empty: "open_all t s (c # cs) w \<noteq> (Inr [], w')"
  by (auto simp add: bind_act_def return_act_def split: prod.splits sum.splits)

lemma open_all_single:
  "open_all t s [c] w = (Inr ds, w') \<Longrightarrow> \<exists>d. ds = [d] \<and> open_ds t c s None w = (Inr d, w')"
  by (auto simp add: bind_act_def return_act_def split: prod.splits sum.splits)

lemma open_ds_name: "open_ds t c s ty w = (Inr d, w') \<Longrightarrow> name d = c"
  by (auto simp add: open_ds_def open_typed_def act_defs findprops_def entity_defs
      split: option.splits if_splits prod.splits sum.splits)

text \<open>
  Claim C10. When the \<^verbatim>\<open>clones\<close> property of a snapshot is the sentinel \<^verbatim>\<open>-\<close>,
  \<^verbatim>\<open>ZFSSnapshot.clones\<close> raises \<^verbatim>\<open>AttributeError\<close> (\<^verbatim>\<open>split\<close> on \<^verbatim>\<open>None\<close>) instead of
  returning an empty list. The emptiness test compares a list with the empty string and is
  never true, so for an empty property value the method goes on to open the one-element
  list holding the empty name: it never returns the empty list, and whatever it returns is
  one handle with an empty name.
\<close>

theorem snapshot_clones_defects:
  "(getprop t self ''clones'' w = (Inr (Some (''-'', src)), w') \<longrightarrow>
      snapshot_clones t self w = (Inl AttributeError, w'))
   \<and> (getprop t self ''clones'' w = (Inr (Some ('''', src)), w') \<longrightarrow>
      snapshot_clones t self w = open_all t (ssh self) [''''] w'
      \<and> fst (snapshot_clones t self w) \<noteq> Inr []
      \<and> (\<forall>ds. fst (snapshot_clones t self w) = Inr ds \<longrightarrow> (\<exists>d. ds = [d] \<and> name d = '''')))
   \<and> (\<forall>clones. PyList clones \<noteq> PyStr '''')"
proof (intro conjI impI allI)
  assume "getprop t self ''clones'' w = (Inr (Some (''-'', src)), w')"
  then show "snapshot_clones t self w = (Inl AttributeError, w')"
    by (simp add: snapshot_clones_def getpropval_def bind_act_def return_act_def raise_act_def)
next
  assume g: "getprop t self ''clones'' w = (Inr (Some ('''', src)), w')"
  then show eq: "snapshot_clones t self w = open_all t (ssh self) [''''] w'"
    by (simp add: snapshot_clones_def getpropval_def bind_act_def return_act_def)
  show "fst (snapshot_clones t self w) \<noteq> Inr []"
    using open_all_Cons_not_empty [of t "ssh self" "''''" "[]" w']
    by (cases "open_all t (ssh self) [''''] w'") (auto simp add: eq simp del: open_all.simps)
  fix ds
  assume "fst (snapshot_clones t self w) = Inr ds"
  then obtain w2 where "open_all t (ssh self) [''''] w' = (Inr ds, w2)"
    by (cases "open_all t (ssh self) [''''] w'") (auto simp add: eq simp del: open_all.simps)
  from open_all_single [OF this]
  obtain d where "ds = [d]" "open_ds t '''' (ssh self) None w' = (Inr d, w2)"
    by blast
  then show "\<exists>d. ds = [d] \<and> name d = ''''"
    using open_ds_name by blast
next
  fix clones
  show "PyList clones \<noteq> PyStr ''''" by simp
qed

theorem snapshot_clones_defects_witness:
  "snapshot_clones (table_tool clone_tab) snap_local [] =
     (Inl AttributeError,
      [([''zfs'', ''get'', ''-H'', ''-p'', ''-d'', ''0'', ''clones'', ''tank/fs@s1''], None)])
   \<and> snapshot_clones empty_clones_tool snap_local [] =
     (Inr [ZFSFilesystem '''' None],
      [([''zfs'', ''get'', ''-H'', ''-p'', ''-d'', ''0'', ''clones'', ''tank/fs@s1''], None),
       ([''zfs'', ''get'', ''-H'', ''-p'', ''-d'', ''0'', ''type''], None)])"
  using snapshot_clones_defects [of "table_tool clone_tab" snap_local "[]" "''-''"
          "[([''zfs'', ''get'', ''-H'', ''-p'', ''-d'', ''0'', ''clones'', ''tank/fs@s1''], None)]"]
        snapshot_clones_defects [of empty_clones_tool snap_local "[]" "''-''"
          "[([''zfs'', ''get'', ''-H'', ''-p'', ''-d'', ''0'', ''clones'', ''tank/fs@s1''], None)]"]
        getprop_table_clones getprop_empty_clones
  by (simp add: act_defs open_ds_def open_typed_def findprops_def findprops_cmd_def
      depth_flags_def props_dict_def py_join_def str_int_def entity_defs snap_local_def
      empty_clones_tool_def)

section \<open>Transfer pipelines: stages and their order\<close>

lemmas pipeline_defs = send_argv_def send_pipeline_def MiB_def mbuff_size_def send_generation_def
  send_mbuffer_def send_pv_def send_compress_def send_shell_def MBUFFER_def PV_def pv_cmd_def
  quote_def is_safe_char_def str_int_def digit_char_def py_join_def SHELL_def is_set_def
  receive_def receive_pipeline_def receive_cmd_def recv_mbuffer_def recv_decompress_def
  send_stages_def receive_stages_def stage_kinds_def pipe_join_def

lemma send_pipeline_stages:
  "send_pipeline e self dst base i r p d raw sz =
     pipe_join (map snd (send_stages e self dst base i r p d raw sz))"
  by (simp add: send_pipeline_def send_stages_def pipe_join_def Let_def split: option.splits)

lemma receive_pipeline_stages:
  "receive_pipeline e nm s src an ap f nom sz raw =
     pipe_join (map snd (receive_stages e nm s src an ap f nom sz raw))"
  by (simp add: receive_pipeline_def receive_stages_def pipe_join_def Let_def split: option.splits)

lemma mbuff_size_clamp:
  "mbuff_size sz remote = spec_clamp (sz div MiB) 1 (if remote then 256 else 512)"
  by (simp add: mbuff_size_def spec_clamp_def min_def max_def)

text \<open>
  Claim C2, as the code has it by design. A compression stage is in the source pipeline
  exactly when raw is false and the vector the code selects is non-empty: with both
  endpoints remote, the two \<^verbatim>\<open>compress\<close> vectors must be equal; with one endpoint remote,
  it is that endpoint's vector; with none, there is no stage. The decompression stage of
  the destination pipeline follows the same rule on the \<^verbatim>\<open>decompress\<close> vectors. Two remote
  endpoints with different vectors give no stage; building the pipeline raises nothing.
\<close>

theorem compression_stage_iff:
  "(Compression \<in> set (stage_kinds (send_stages e self dst base i r p d raw sz)) \<longleftrightarrow>
      \<not> raw \<and> (\<exists>c. c \<noteq> [] \<and>
        (case ssh self of
           Some a \<Rightarrow> (case dst of
                        Some b \<Rightarrow> compress a = Some c \<and> compress b = Some c
                      | None \<Rightarrow> compress a = Some c)
         | None \<Rightarrow> (case dst of
                      Some b \<Rightarrow> compress b = Some c
                    | None \<Rightarrow> False))))
   \<and> (Decompression \<in> set (stage_kinds (receive_stages e nm s src an ap f nom sz raw)) \<longleftrightarrow>
      \<not> raw \<and> (\<exists>c. c \<noteq> [] \<and>
        (case src of
           Some a \<Rightarrow> (case s of
                        Some b \<Rightarrow> decompress a = Some c \<and> decompress b = Some c
                      | None \<Rightarrow> decompress a = Some c)
         | None \<Rightarrow> (case s of
                      Some b \<Rightarrow> decompress b = Some c
                    | None \<Rightarrow> False))))
   \<and> send_pipeline e self dst base i r p d raw sz =
       pipe_join (map snd (send_stages e self dst base i r p d raw sz))
   \<and> receive_pipeline e nm s src an ap f nom sz raw =
       pipe_join (map snd (receive_stages e nm s src an ap f nom sz raw))"
proof (intro conjI)
  show "Compression \<in> set (stage_kinds (send_stages e self dst base i r p d raw sz)) \<longleftrightarrow>
      \<not> raw \<and> (\<exists>c. c \<noteq> [] \<and>
        (case ssh self of
           Some a \<Rightarrow> (case dst of
                        Some b \<Rightarrow> compress a = Some c \<and> compress b = Some c
                      | None \<Rightarrow> compress a = Some c)
         | None \<Rightarrow> (case dst of
                      Some b \<Rightarrow> compress b = Some c
                    | None \<Rightarrow> False)))"
    by (auto simp add: send_stages_def stage_kinds_def send_compress_def
        split: option.splits if_splits)
  show "Decompression \<in> set (stage_kinds (receive_stages e nm s src an ap f nom sz raw)) \<longleftrightarrow>
      \<not> raw \<and> (\<exists>c. c \<noteq> [] \<and>
        (case src of
           Some a \<Rightarrow> (case s of
                        Some b \<Rightarrow> decompress a = Some c \<and> decompress b = Some c
                      | None \<Rightarrow> decompress a = Some c)
         | None \<Rightarrow> (case s of
                      Some b \<Rightarrow> decompress b = Some c
                    | None \<Rightarrow> False)))"
    by (auto simp add: receive_stages_def stage_kinds_def recv_decompress_def
        split: option.splits if_splits)
qed (rule send_pipeline_stages receive_pipeline_stages)+

text \<open>
  Claim C2 as stated fails for a transfer from the local machine to a remote endpoint: the
  local endpoint has no compression vector, so the two vectors are not both non-empty
  and equal, and yet the source pipeline ends with the remote endpoint's compressor.
\<close>

theorem compression_claim_counterexample:
  "Compression \<in> set (stage_kinds (send_stages env_all snap_local (Some remote_a) None
       False False False False False 0))
   \<and> send_pipeline env_all snap_local (Some remote_a) None False False False False False 0 =
       [''zfs'', ''send'', ''tank/fs@s1'', ''|'', ''lzop'', ''-3'']
   \<and> endpoint_compress (ssh snap_local) = None
   \<and> \<not> spec_compression_cond (ssh snap_local) (Some remote_a) False"
  by (simp add: pipeline_defs entity_defs example_defs env_all_def remote_a_def
      spec_compression_cond_def endpoint_compress_def)

theorem compression_stage_iff_witness:
  "Compression \<in> set (stage_kinds (send_stages env_all snap_local (Some remote_a) None
       False False False False False 0))
   \<and> Compression \<notin> set (stage_kinds (send_stages env_all snap_remote (Some remote_b) None
       False False False False False 0))
   \<and> Decompression \<in> set (stage_kinds (receive_stages env_all ''backup/fs'' (Some remote_a) None
       False False False False 0 False))
   \<and> Decompression \<notin> set (stage_kinds (receive_stages env_all ''backup/fs'' (Some remote_b)
       (Some remote_a) False False False False 0 False))"
  using compression_stage_iff [of env_all snap_local "Some remote_a" None False False False False
          False 0 "''backup/fs''" "Some remote_a" None False False False False]
        compression_stage_iff [of env_all snap_remote "Some remote_b" None False False False False
          False 0 "''backup/fs''" "Some remote_b" "Some remote_a" False False False False]
  by (simp add: entity_defs example_defs remote_a_def remote_b_def)

text \<open>
  Claim C3, as the code has it. The stages of the source pipeline are, in this order and
  each at most once: generation, buffering, metering, compression. When both optional
  stages are present the pipeline starts with generation, buffering, metering: the
  buffering stage precedes the metering stage.
\<close>

theorem send_stage_order:
  "stage_kinds (send_stages e self dst base i r p d raw sz) =
     filter (\<lambda>k. k \<in> set (stage_kinds (send_stages e self dst base i r p d raw sz)))
       [Generation, Buffering, Metering, Compression]
   \<and> (Buffering \<in> set (stage_kinds (send_stages e self dst base i r p d raw sz))
      \<and> Metering \<in> set (stage_kinds (send_stages e self dst base i r p d raw sz)) \<longrightarrow>
        take 3 (stage_kinds (send_stages e self dst base i r p d raw sz)) =
          [Generation, Buffering, Metering])
   \<and> send_pipeline e self dst base i r p d raw sz =
       pipe_join (map snd (send_stages e self dst base i r p d raw sz))"
proof (intro conjI)
  show "stage_kinds (send_stages e self dst base i r p d raw sz) =
     filter (\<lambda>k. k \<in> set (stage_kinds (send_stages e self dst base i r p d raw sz)))
       [Generation, Buffering, Metering, Compression]"
    by (simp add: send_stages_def stage_kinds_def split: option.splits)
  show "Buffering \<in> set (stage_kinds (send_stages e self dst base i r p d raw sz))
      \<and> Metering \<in> set (stage_kinds (send_stages e self dst base i r p d raw sz)) \<longrightarrow>
        take 3 (stage_kinds (send_stages e self dst base i r p d raw sz)) =
          [Generation, Buffering, Metering]"
    by (simp add: send_stages_def stage_kinds_def split: option.splits)
qed (rule send_pipeline_stages)

text \<open>
  Claim C3 as stated fails: with both tools available and 300 MiB to send, the command is
  \<^verbatim>\<open>zfs send | mbuffer | pv | lzop\<close>, buffering before metering.
\<close>

theorem stage_order_claim_counterexample:
  "stage_kinds (send_stages env_all snap_local (Some remote_a) None False False False False
       False 314572800) = [Generation, Buffering, Metering, Compression]
   \<and> stage_kinds (send_stages env_all snap_local (Some remote_a) None False False False False
       False 314572800) \<noteq> [Generation, Metering, Buffering, Compression]
   \<and> send_argv env_all snap_local (Some remote_a) None False False False False False
       314572800 =
       [''sh'', ''-c'',
        ''zfs send tank/fs@s1 | mbuffer -q -s 128K -m 256M | pv -f -w 100 -s 314572800 | lzop -3'']"
  by (simp add: pipeline_defs entity_defs example_defs env_all_def remote_a_def)

theorem send_stage_order_witness:
  "take 3 (stage_kinds (send_stages env_all snap_local (Some remote_a) None False False False
       False False 314572800)) = [Generation, Buffering, Metering]"
  using send_stage_order [of env_all snap_local "Some remote_a" None False False False False
          False 314572800]
  by (simp add: send_stages_def stage_kinds_def send_mbuffer_def send_pv_def MBUFFER_def PV_def
      env_all_def MiB_def entity_defs example_defs)

text \<open>
  Claim C6. Below 1 MiB neither pipeline has a metering or a buffering stage, whatever
  tools exist. A buffering stage that is present is the endpoint's \<^verbatim>\<open>mbuffer\<close> command
  for clamp(size div 1 MiB, 1, cap) MiB, with cap 256 for a remote transfer and 512 for a
  local one.
\<close>

theorem size_gated_stages:
  "(sz < MiB \<longrightarrow>
      Metering \<notin> set (stage_kinds (send_stages e self dst base i r p d raw sz))
      \<and> Buffering \<notin> set (stage_kinds (send_stages e self dst base i r p d raw sz))
      \<and> Metering \<notin> set (stage_kinds (receive_stages e nm s src an ap f nom sz raw'))
      \<and> Buffering \<notin> set (stage_kinds (receive_stages e nm s src an ap f nom sz raw')))
   \<and> (\<forall>argv. (Buffering, argv) \<in> set (send_stages e self dst base i r p d raw sz) \<longrightarrow>
        (\<exists>g. send_mbuffer e (ssh self) = Some g
           \<and> argv = g (spec_clamp (sz div MiB) 1
                        (if is_set (ssh self) \<or> is_set dst then 256 else 512))))
   \<and> (\<forall>argv. (Buffering, argv) \<in> set (receive_stages e nm s src an ap f nom sz raw') \<longrightarrow>
        (\<exists>g. recv_mbuffer e s = Some g
           \<and> argv = g (spec_clamp (sz div MiB) 1
                        (if is_set src \<or> is_set s then 256 else 512))))"
proof (intro conjI impI allI)
  assume "sz < MiB"
  then show "Metering \<notin> set (stage_kinds (send_stages e self dst base i r p d raw sz))"
    and "Buffering \<notin> set (stage_kinds (send_stages e self dst base i r p d raw sz))"
    by (auto simp add: send_stages_def stage_kinds_def split: option.splits if_splits)
  from \<open>sz < MiB\<close>
  show "Metering \<notin> set (stage_kinds (receive_stages e nm s src an ap f nom sz raw'))"
    and "Buffering \<notin> set (stage_kinds (receive_stages e nm s src an ap f nom sz raw'))"
    by (auto simp add: receive_stages_def stage_kinds_def split: option.splits if_splits)
next
  fix argv
  assume "(Buffering, argv) \<in> set (send_stages e self dst base i r p d raw sz)"
  then show "\<exists>g. send_mbuffer e (ssh self) = Some g
           \<and> argv = g (spec_clamp (sz div MiB) 1
                        (if is_set (ssh self) \<or> is_set dst then 256 else 512))"
    by (cases "send_mbuffer e (ssh self)")
       (auto simp add: send_stages_def mbuff_size_clamp split: option.splits if_splits)
next
  fix argv
  assume "(Buffering, argv) \<in> set (receive_stages e nm s src an ap f nom sz raw')"
  then show "\<exists>g. recv_mbuffer e s = Some g
           \<and> argv = g (spec_clamp (sz div MiB) 1
                        (if is_set src \<or> is_set s then 256 else 512))"
    by (cases "recv_mbuffer e s")
       (auto simp add: receive_stages_def mbuff_size_clamp split: option.splits if_splits)
qed

lemma send_stages_small:
  "send_stages env_all snap_remote None None False False False False False 512000 =
     [(Generation, [''zfs'', ''send'', ''tank/fs@s1'']), (Compression, [''lzop'', ''-3''])]"
  by (simp add: pipeline_defs entity_defs example_defs env_all_def remote_a_def)

lemma send_stages_large_remote:
  "send_stages env_all snap_local (Some remote_a) None False False False False False
      314572800 =
     [(Generation, [''zfs'', ''send'', ''tank/fs@s1'']),
      (Buffering, [''mbuffer'', ''-q'', ''-s'', ''128K'', ''-m'', ''256M'']),
      (Metering, [''pv'', ''-f'', ''-w'', ''100'', ''-s'', ''314572800'']),
      (Compression, [''lzop'', ''-3''])]"
  by (simp add: pipeline_defs entity_defs example_defs env_all_def remote_a_def)

lemma send_stages_large_local:
  "send_stages env_all snap_local None None False False False False False 314572800 =
     [(Generation, [''zfs'', ''send'', ''tank/fs@s1'']),
      (Buffering, [''mbuffer'', ''-q'', ''-s'', ''128K'', ''-m'', ''300M'']),
      (Metering, [''pv'', ''-f'', ''-w'', ''100'', ''-s'', ''314572800''])]"
  by (simp add: pipeline_defs entity_defs example_defs env_all_def remote_a_def)

lemma receive_stages_large_remote:
  "receive_stages env_all ''backup/fs'' (Some remote_a) None False False False False
      314572800 False =
     [(Buffering, [''mbuffer'', ''-q'', ''-s'', ''128K'', ''-m'', ''256M'']),
      (Decompression, [''lzop'', ''-dfc'']),
      (Receive, [''zfs'', ''receive'', ''backup/fs''])]"
  by (simp add: pipeline_defs entity_defs example_defs env_all_def remote_a_def)

lemma ssh_snap_local: "ssh snap_local = None"
  by (simp add: snap_local_def entity_defs)

theorem size_gated_stages_witness:
  "Metering \<notin> set (stage_kinds (send_stages env_all snap_remote None None False False False
       False False 512000))
   \<and> Buffering \<notin> set (stage_kinds (send_stages env_all snap_remote None None False False False
       False False 512000))
   \<and> Buffering \<notin> set (stage_kinds (receive_stages env_all ''backup/fs'' (Some remote_a) None
       False False False False 512000 False))
   \<and> (\<exists>g. send_mbuffer env_all (ssh snap_local) = Some g
          \<and> [''mbuffer'', ''-q'', ''-s'', ''128K'', ''-m'', ''256M''] = g (spec_clamp 300 1 256))
   \<and> (\<exists>g. send_mbuffer env_all (ssh snap_local) = Some g
          \<and> [''mbuffer'', ''-q'', ''-s'', ''128K'', ''-m'', ''300M''] = g (spec_clamp 300 1 512))
   \<and> (\<exists>g. recv_mbuffer env_all (Some remote_a) = Some g
          \<and> [''mbuffer'', ''-q'', ''-s'', ''128K'', ''-m'', ''256M''] = g (spec_clamp 300 1 256))"
proof -
  have small:
    "Metering \<notin> set (stage_kinds (send_stages env_all snap_remote None None False False False
         False False 512000))
     \<and> Buffering \<notin> set (stage_kinds (send_stages env_all snap_remote None None False False
         False False False 512000))
     \<and> Buffering \<notin> set (stage_kinds (receive_stages env_all ''backup/fs'' (Some remote_a)
         None False False False False 512000 False))"
    using size_gated_stages [of 512000 env_all snap_remote None None False False False False
            False "''backup/fs''" "Some remote_a" None False False False False False]
    by (simp add: MiB_def)
  have remote_cap:
    "\<exists>g. send_mbuffer env_all (ssh snap_local) = Some g
        \<and> [''mbuffer'', ''-q'', ''-s'', ''128K'', ''-m'', ''256M''] = g (spec_clamp 300 1 256)"
    using size_gated_stages [of 314572800 env_all snap_local "Some remote_a" None False False
            False False False "''backup/fs''" "Some remote_a" None False False False False False,
            THEN conjunct2, THEN conjunct1, rule_format,
            of "[''mbuffer'', ''-q'', ''-s'', ''128K'', ''-m'', ''256M'']"]
    by (simp add: send_stages_large_remote MiB_def is_set_def)
  have local_cap:
    "\<exists>g. send_mbuffer env_all (ssh snap_local) = Some g
        \<and> [''mbuffer'', ''-q'', ''-s'', ''128K'', ''-m'', ''300M''] = g (spec_clamp 300 1 512)"
    using size_gated_stages [of 314572800 env_all snap_local None None False False
            False False False "''backup/fs''" "Some remote_a" None False False False False False,
            THEN conjunct2, THEN conjunct1, rule_format,
            of "[''mbuffer'', ''-q'', ''-s'', ''128K'', ''-m'', ''300M'']"]
    by (simp add: send_stages_large_local MiB_def is_set_def ssh_snap_local)
  have recv_cap:
    "\<exists>g. recv_mbuffer env_all (Some remote_a) = Some g
        \<and> [''mbuffer'', ''-q'', ''-s'', ''128K'', ''-m'', ''256M''] = g (spec_clamp 300 1 256)"
    using size_gated_stages [of 314572800 env_all snap_local None None False False
            False False False "''backup/fs''" "Some remote_a" None False False False False False,
            THEN conjunct2, THEN conjunct2, rule_format,
            of "[''mbuffer'', ''-q'', ''-s'', ''128K'', ''-m'', ''256M'']"]
    by (simp add: receive_stages_large_remote MiB_def is_set_def)
  show ?thesis
    using small remote_cap local_cap recv_cap by blast
qed

section \<open>Size estimation and its cache\<close>

lemmas size_defs = stream_size_def stream_size_run_def stream_size_cmd_def check_output_def
  parse_size_def caught_def base_key_def dataset_str_def

lemmas int_defs = py_int_def py_strip_def py_isspace_def digits_ok_def digits_val_def
  digit_val_def is_digit_def

lemma set_py_split_all: "\<forall>g \<in> set (py_split sep s). set g \<subseteq> set s"
proof (induction s)
  case Nil
  then show ?case by simp
next
  case (Cons c cs)
  show ?case
  proof (cases "py_split sep cs")
    case Nil
    then show ?thesis by simp
  next
    case (Cons x xs)
    with Cons.IH have "set x \<subseteq> set cs" and "\<forall>g \<in> set xs. set g \<subseteq> set cs"
      by simp_all
    with Cons show ?thesis
      by auto
  qed
qed

lemma set_py_split: "g \<in> set (py_split sep s) \<Longrightarrow> set g \<subseteq> set s"
  using set_py_split_all by blast

lemma digits_filter:
  "list_all (\<lambda>g. list_all P g) (py_split sep s) \<Longrightarrow> list_all P (filter (\<lambda>c. c \<noteq> sep) s)"
proof (induction s)
  case Nil
  then show ?case by simp
next
  case (Cons c cs)
  then show ?case
    by (cases "py_split sep cs") (auto split: if_splits)
qed

lemma foldl_digits_nonneg:
  "list_all is_digit s \<Longrightarrow> 0 \<le> acc \<Longrightarrow> 0 \<le> foldl (\<lambda>acc c. 10 * acc + digit_val c) acc s"
  by (induction s arbitrary: acc) (auto simp add: is_digit_def digit_val_def)

lemma digits_val_nonneg: "digits_ok s \<Longrightarrow> 0 \<le> digits_val (filter (\<lambda>c. c \<noteq> CHR ''_'') s)"
proof -
  assume "digits_ok s"
  then have "list_all (\<lambda>g. list_all is_digit g) (py_split (CHR ''_'') s)"
    by (simp add: digits_ok_def list_all_iff)
  then have "list_all is_digit (filter (\<lambda>c. c \<noteq> CHR ''_'') s)"
    by (rule digits_filter)
  then show ?thesis
    by (simp add: digits_val_def foldl_digits_nonneg)
qed

lemma digits_ok_Nil: "\<not> digits_ok []"
  by (simp add: digits_ok_def)

lemma set_py_strip: "set (py_strip s) \<subseteq> set s"
proof -
  have "set (py_strip s) \<subseteq> set (dropWhile py_isspace s)"
    unfolding py_strip_def using set_dropWhileD by fastforce
  also have "\<dots> \<subseteq> set s"
    using set_dropWhileD by fastforce
  finally show ?thesis .
qed

lemma py_int_nonneg:
  assumes "py_int m s = Some n" and "CHR ''-'' \<notin> set s"
  shows "0 \<le> n"
proof -
  let ?t = "py_strip s"
  have no_minus: "\<not> (?t \<noteq> [] \<and> hd ?t = CHR ''-'')"
    using assms(2) set_py_strip [of s] hd_in_set [of ?t] by (metis subsetD)
  from assms(1) no_minus show ?thesis
    by (auto simp add: py_int_def Let_def digits_val_nonneg digits_ok_Nil split: if_splits)
qed

lemma last_py_split_subset: "set (last (py_split sep s)) \<subseteq> set s"
  using set_py_split [of "last (py_split sep s)" sep s] py_split_not_Nil [of sep s]
  by simp

lemma parse_size_nonneg:
  assumes "parse_size e out = Some n" and "CHR ''-'' \<notin> set (last (last out))"
  shows "0 \<le> n"
  using assms last_py_split_subset [of "CHR '' ''" "last (last out)"]
  by (auto simp add: parse_size_def split: if_splits intro!: py_int_nonneg)

text \<open>
  \<^verbatim>\<open>int\<close> strips the six ASCII white-space characters only: a field that starts with the
  byte 28 is rejected, and the estimate is then 0.
\<close>

lemma py_int_rejects_separator: "py_int m (CHR 0x1C # ''12'') = None"
  by (simp add: int_defs)

text \<open>
  A string of more than 640 digits that exceeds a non-zero digit limit is rejected, so the
  estimate for such a field is 0 as well.
\<close>

lemma digit_not_space: "is_digit c \<Longrightarrow> \<not> py_isspace c"
  by (auto simp add: is_digit_def py_isspace_def)

lemma digit_not_sign: "is_digit c \<Longrightarrow> c \<noteq> CHR ''-'' \<and> c \<noteq> CHR ''+'' \<and> c \<noteq> CHR ''_''"
  by (auto simp add: is_digit_def)

lemma py_strip_digits: "list_all is_digit s \<Longrightarrow> py_strip s = s"
proof -
  assume d: "list_all is_digit s"
  have a: "dropWhile py_isspace s = s"
    using d by (cases s) (auto simp add: digit_not_space)
  have "list_all is_digit (rev s)"
    using d by (simp add: list_all_iff)
  then have b: "dropWhile py_isspace (rev s) = rev s"
    by (cases "rev s") (auto simp add: digit_not_space)
  show ?thesis
    by (simp add: py_strip_def a b)
qed

lemma filter_digits: "list_all is_digit s \<Longrightarrow> filter (\<lambda>c. c \<noteq> CHR ''_'') s = s"
  by (induction s) (auto simp add: digit_not_sign)

lemma py_int_digit_limit:
  assumes "list_all is_digit s" and "640 < length s" and "0 < m" and "m < length s"
  shows "py_int m s = None"
proof -
  from assms(2) obtain c cs where s: "s = c # cs"
    by (cases s) auto
  with assms(1) have "is_digit c"
    by simp
  then have "hd s \<noteq> CHR ''-''" and "hd s \<noteq> CHR ''+''"
    using s digit_not_sign by auto
  then show ?thesis
    using assms by (simp add: py_int_def Let_def py_strip_digits filter_digits)
qed

text \<open>
  Claim C5, as the code has it. For a base whose size is not in the cache, the estimator
  returns 0 when the dry run raises \<^verbatim>\<open>DatasetNotFoundError\<close>, \<^verbatim>\<open>DatasetBusyError\<close> or
  \<^verbatim>\<open>CalledProcessError\<close>, and 0 when the last field of the last line cannot be parsed;
  otherwise it returns the integer parsed from the text after the last blank of that
  field, which is non-negative whenever the field holds no minus sign.
\<close>

theorem stream_size_estimate:
  assumes "stream_cache self = None
           \<or> (\<exists>c. stream_cache self = Some c \<and> c (base_key base) = None)"
  shows "(\<forall>err. t (length w) (stream_size_cmd (name self) base) (ssh self) = Inl err
             \<and> (err = DatasetNotFoundError \<or> err = DatasetBusyError
                 \<or> err = CalledProcessError) \<longrightarrow>
           fst (stream_size t e self base w) = Inr 0)
       \<and> (\<forall>out. t (length w) (stream_size_cmd (name self) base) (ssh self) = Inr out
             \<and> parse_size e out = None \<longrightarrow>
           fst (stream_size t e self base w) = Inr 0)
       \<and> (\<forall>out n. t (length w) (stream_size_cmd (name self) base) (ssh self) = Inr out
             \<and> parse_size e out = Some n \<longrightarrow>
           fst (stream_size t e self base w) = Inr n
           \<and> (CHR ''-'' \<notin> set (last (last out)) \<longrightarrow> 0 \<le> n))"
  using assms
  by (auto simp add: stream_size_def stream_size_run_def check_output_def caught_def
      parse_size_nonneg split: option.splits)

text \<open>
  Claim C5 as stated fails where the last field carries a minus sign: \<^verbatim>\<open>int\<close> accepts it,
  and the estimator returns the negative number.
\<close>

theorem stream_size_claim_counterexample:
  "fst (stream_size minus_tool env_all snap_local None []) = Inr (- 5)
   \<and> minus_tool 0 (stream_size_cmd (name snap_local) None) (ssh snap_local) =
       Inr [[''size'', ''-5'']]
   \<and> parse_size env_all [[''size'', ''-5'']] = Some (- 5)"
  by (simp add: size_defs int_defs minus_tool_def snap_local_def entity_defs env_all_def)

lemma parse_size_steady:
  "parse_size env_all [[''full'', ''tank/fs@s1'', ''1000''], [''size'', ''1000'']] = Some 1000"
  by (simp add: parse_size_def int_defs env_all_def)

lemma parse_size_words: "parse_size env_all [[''size is unknown'']] = None"
  by (simp add: parse_size_def int_defs env_all_def)

theorem stream_size_estimate_witness:
  "fst (stream_size flaky_tool env_all snap_local None []) = Inr 0
   \<and> fst (stream_size (\<lambda>n argv s. Inr [[''size is unknown'']]) env_all snap_local None []) =
       Inr 0
   \<and> fst (stream_size steady_tool env_all snap_local None []) = Inr 1000"
  using stream_size_estimate [of snap_local None flaky_tool "[]" env_all]
        stream_size_estimate
          [of snap_local None "\<lambda>n argv s. Inr [[''size is unknown'']]" "[]" env_all]
        stream_size_estimate [of snap_local None steady_tool "[]" env_all]
  by (simp add: flaky_tool_def steady_tool_def parse_size_steady parse_size_words
      snap_local_def entity_defs)

text \<open>
  Claim C4 at a fresh snapshot whose first dry run is busy. The first call returns 0 and
  leaves the new cache empty; the second call with the same base invokes the tool again
  and returns another value.
\<close>

theorem stream_size_repeat_reinvokes:
  "stream_size flaky_tool env_all snap_local None [] =
     (Inr 0, snap_local\<lparr>stream_cache := Some Map.empty\<rparr>,
      [([''zfs'', ''send'', ''-nvP'', ''tank/fs@s1''], None)])
   \<and> stream_size flaky_tool env_all (snap_local\<lparr>stream_cache := Some Map.empty\<rparr>) None
       [([''zfs'', ''send'', ''-nvP'', ''tank/fs@s1''], None)] =
     (Inr 1000, snap_local\<lparr>stream_cache := Some [''None'' \<mapsto> 1000]\<rparr>,
      [([''zfs'', ''send'', ''-nvP'', ''tank/fs@s1''], None),
       ([''zfs'', ''send'', ''-nvP'', ''tank/fs@s1''], None)])"
  by (simp add: size_defs int_defs flaky_tool_def snap_local_def entity_defs env_all_def)

text \<open>
  A repeated call is answered from the cache, without an invocation, whenever the first
  call found the cache attribute in place or returned a non-zero size.
\<close>

lemma stream_size_repeat_cached:
  assumes "stream_size t e self base w = (Inr v, self', w')"
    and "stream_cache self \<noteq> None \<or> v \<noteq> 0"
  shows "stream_size t2 e2 self' base w' = (Inr v, self', w')"
  using assms
  by (auto simp add: stream_size_def stream_size_run_def check_output_def
      split: option.splits sum.splits if_splits prod.splits)

text \<open>
  A failed estimate does not abort \<^verbatim>\<open>send\<close>: the size is 0, the size-gated stages are
  left out, and the command is still built.
\<close>

lemma send_degrades_on_busy:
  "send flaky_tool env_all snap_local (Some remote_a) None False False False False False [] =
     (Inr [''sh'', ''-c'', ''zfs send tank/fs@s1 | lzop -3''],
      snap_local\<lparr>stream_cache := Some Map.empty\<rparr>,
      [([''zfs'', ''send'', ''-nvP'', ''tank/fs@s1''], None)])"
  by (simp add: send_def size_defs pipeline_defs flaky_tool_def env_all_def remote_a_def
      snap_local_def entity_defs)

end
